theory Spec2Isabelle
  imports Main
begin

section \<open>Python values, exceptions and results\<close>

text \<open>
  The two scripts handle strings, integers, \<^verbatim>\<open>None\<close>, dictionaries decoded from JSON and
  instances of the pydantic class \<^verbatim>\<open>UserDetails\<close>. A Python \<^verbatim>\<open>str\<close> is modelled by the
  bytes of its UTF-8 encoding (a \<open>string\<close>), a Python \<^verbatim>\<open>int\<close> by an unbounded \<open>int\<close>.
  A float is kept as the literal that denotes it: no claim computes with floats.
  A dictionary with string keys is an association list in insertion order.
\<close>

datatype py_value =
    PyNone
  | PyBool bool
  | PyInt int
  | PyFloat string
  | PyStr string
  | PyList "py_value list"
  | PyDict "(string \<times> py_value) list"

text \<open>
  An exception object carries its class and its message (\<^verbatim>\<open>str(e)\<close>). What the handlers
  of the source look at is the class: \<^verbatim>\<open>except Exception\<close> catches the classes that derive
  from \<^verbatim>\<open>Exception\<close>, so not \<^verbatim>\<open>KeyboardInterrupt\<close>, \<^verbatim>\<open>SystemExit\<close>, \<^verbatim>\<open>GeneratorExit\<close> or
  another class that derives from \<^verbatim>\<open>BaseException\<close> only;
  \<^verbatim>\<open>except json.JSONDecodeError\<close> catches \<^verbatim>\<open>JSONDecodeError\<close>.
\<close>

datatype exc_class =
    JSONDecodeError
  | ValidationError
  | ConnectionError
  | OtherException string
  | KeyboardInterrupt
  | SystemExit
  | GeneratorExit
  | OtherBaseException string

datatype py_exception = PyExc exc_class string

fun class_of :: "py_exception \<Rightarrow> exc_class" where
  "class_of (PyExc c m) = c"

fun str_of :: "py_exception \<Rightarrow> string" where
  "str_of (PyExc c m) = m"

fun derives_Exception :: "exc_class \<Rightarrow> bool" where
  "derives_Exception KeyboardInterrupt = False"
| "derives_Exception SystemExit = False"
| "derives_Exception GeneratorExit = False"
| "derives_Exception (OtherBaseException n) = False"
| "derives_Exception c = True"

definition isinstance_Exception :: "py_exception \<Rightarrow> bool" where
  "isinstance_Exception e = derives_Exception (class_of e)"

definition isinstance_JSONDecodeError :: "py_exception \<Rightarrow> bool" where
  "isinstance_JSONDecodeError e = (class_of e = JSONDecodeError)"

text \<open>A call either returns a value or raises.\<close>

datatype 'a py_result = Return 'a | Raise py_exception

section \<open>\<^verbatim>\<open>json.loads\<close>\<close>

text \<open>
  \<^verbatim>\<open>structured_output_demo.py\<close> parses the response with \<^verbatim>\<open>json.loads\<close> of the standard
  library, with its default settings. The model follows the decoder's grammar: white space
  is space, tab, line feed and carriage return; a value is an object, an array, a string, a
  number, \<^verbatim>\<open>true\<close>, \<^verbatim>\<open>false\<close>, \<^verbatim>\<open>null\<close>, \<^verbatim>\<open>NaN\<close>, \<^verbatim>\<open>Infinity\<close> or \<^verbatim>\<open>-Infinity\<close>; the whole
  text must be one value; every failure is a \<^verbatim>\<open>JSONDecodeError\<close>, whose message is not
  modelled (the source never reads it). The interpreter's recursion limit and its limit on
  the digits of an integer literal are not modelled.

  The text is first cut into tokens by an automaton that reads one character at a time,
  then the tokens are assembled with an explicit stack of the containers that are open.
\<close>

definition whitespace :: "char \<Rightarrow> bool" where
  "whitespace c = (c = CHR '' '' \<or> c = CHR 0x09 \<or> c = CHR 0x0A \<or> c = CHR 0x0D)"

definition digit :: "char \<Rightarrow> bool" where
  "digit c = (48 \<le> (of_char c :: nat) \<and> (of_char c :: nat) \<le> 57)"

definition letter :: "char \<Rightarrow> bool" where
  "letter c = ((65 \<le> (of_char c :: nat) \<and> (of_char c :: nat) \<le> 90)
             \<or> (97 \<le> (of_char c :: nat) \<and> (of_char c :: nat) \<le> 122))"

subsection \<open>Numbers\<close>

fun digits_value :: "nat \<Rightarrow> string \<Rightarrow> nat" where
  "digits_value acc [] = acc"
| "digits_value acc (c # cs) = digits_value (acc * 10 + (of_char c - 48)) cs"

text \<open>The integer part of a number: \<^verbatim>\<open>-?(0|[1-9][0-9]*)\<close>.\<close>

definition unsigned_literal :: "string \<Rightarrow> nat option" where
  "unsigned_literal ds =
     (if ds = [] \<or> \<not> list_all digit ds then None
      else if hd ds = CHR ''0'' \<and> tl ds \<noteq> [] then None
      else Some (digits_value 0 ds))"

definition int_literal :: "string \<Rightarrow> int option" where
  "int_literal s =
     (case s of
        [] \<Rightarrow> None
      | c # cs \<Rightarrow>
          if c = CHR ''-'' then map_option (\<lambda>n. - int n) (unsigned_literal cs)
          else map_option int (unsigned_literal s))"

text \<open>The exponent \<^verbatim>\<open>[eE][-+]?[0-9]+\<close> and the fraction \<^verbatim>\<open>\.[0-9]+\<close> before it.\<close>

definition exponent_part :: "string \<Rightarrow> bool" where
  "exponent_part r =
     (case r of
        [] \<Rightarrow> False
      | e # r1 \<Rightarrow>
          (e = CHR ''e'' \<or> e = CHR ''E'') \<and>
          (let r2 = (case r1 of
                       [] \<Rightarrow> []
                     | s # r' \<Rightarrow> if s = CHR ''+'' \<or> s = CHR ''-'' then r' else r1)
           in r2 \<noteq> [] \<and> list_all digit r2))"

definition fraction_exponent :: "string \<Rightarrow> bool" where
  "fraction_exponent r =
     (case r of
        [] \<Rightarrow> False
      | c # r1 \<Rightarrow>
          if c = CHR ''.'' then
            takeWhile digit r1 \<noteq> [] \<and>
            (dropWhile digit r1 = [] \<or> exponent_part (dropWhile digit r1))
          else exponent_part r)"

definition number_literal :: "string \<Rightarrow> py_value option" where
  "number_literal s =
     (let stop = (\<lambda>c. c = CHR ''.'' \<or> c = CHR ''e'' \<or> c = CHR ''E'');
          whole = takeWhile (\<lambda>c. \<not> stop c) s;
          rest = dropWhile (\<lambda>c. \<not> stop c) s
      in case int_literal whole of
           None \<Rightarrow> None
         | Some n \<Rightarrow>
             if rest = [] then Some (PyInt n)
             else if fraction_exponent rest then Some (PyFloat s)
             else None)"

text \<open>
  A run of letters, digits, signs and dots that stands where a value may stand is one of
  the literal names or a number.
\<close>

definition bare_value :: "string \<Rightarrow> py_value option" where
  "bare_value s =
     (if s = ''true'' then Some (PyBool True)
      else if s = ''false'' then Some (PyBool False)
      else if s = ''null'' then Some PyNone
      else if s = ''NaN'' then Some (PyFloat ''NaN'')
      else if s = ''Infinity'' then Some (PyFloat ''Infinity'')
      else if s = ''-Infinity'' then Some (PyFloat ''-Infinity'')
      else number_literal s)"

subsection \<open>Strings\<close>

text \<open>
  Between its quotes a string holds no control character; a backslash is followed by one of
  \<^verbatim>\<open>" \ / b f n r t\<close> or by \<^verbatim>\<open>u\<close> and four hexadecimal digits. A high surrogate followed by
  an escaped low surrogate is one code point. The decoded code point is written in UTF-8
  (a surrogate that stands alone with the three-byte pattern).
\<close>

definition hex_value :: "char \<Rightarrow> nat option" where
  "hex_value c =
     (let n = (of_char c :: nat) in
      if 48 \<le> n \<and> n \<le> 57 then Some (n - 48)
      else if 65 \<le> n \<and> n \<le> 70 then Some (n - 55)
      else if 97 \<le> n \<and> n \<le> 102 then Some (n - 87)
      else None)"

definition hex4 :: "string \<Rightarrow> nat option" where
  "hex4 cs =
     (case map hex_value (take 4 cs) of
        [Some a, Some b, Some c, Some d] \<Rightarrow> Some (((a * 16 + b) * 16 + c) * 16 + d)
      | _ \<Rightarrow> None)"

definition utf8 :: "nat \<Rightarrow> string" where
  "utf8 n =
     (if n < 0x80 then [char_of n]
      else if n < 0x800 then [char_of (0xC0 + n div 64), char_of (0x80 + n mod 64)]
      else if n < 0x10000 then
        [char_of (0xE0 + n div 4096), char_of (0x80 + (n div 64) mod 64),
         char_of (0x80 + n mod 64)]
      else
        [char_of (0xF0 + n div 262144), char_of (0x80 + (n div 4096) mod 64),
         char_of (0x80 + (n div 64) mod 64), char_of (0x80 + n mod 64)])"

definition simple_escape :: "char \<Rightarrow> char option" where
  "simple_escape e =
     (if e = CHR 0x22 then Some (CHR 0x22)
      else if e = CHR 0x5C then Some (CHR 0x5C)
      else if e = CHR ''/'' then Some (CHR ''/'')
      else if e = CHR ''b'' then Some (CHR 0x08)
      else if e = CHR ''f'' then Some (CHR 0x0C)
      else if e = CHR ''n'' then Some (CHR 0x0A)
      else if e = CHR ''r'' then Some (CHR 0x0D)
      else if e = CHR ''t'' then Some (CHR 0x09)
      else None)"

text \<open>
  \<open>escaped_unicode cs\<close> reads what follows \<^verbatim>\<open>\u\<close>: the code point and how many characters
  of \<open>cs\<close> it took (4, or 10 for a surrogate pair).
\<close>

definition escaped_unicode :: "string \<Rightarrow> (nat \<times> nat) option" where
  "escaped_unicode cs =
     (case hex4 cs of
        None \<Rightarrow> None
      | Some hi \<Rightarrow>
          if 0xD800 \<le> hi \<and> hi \<le> 0xDBFF \<and> take 2 (drop 4 cs) = [CHR 0x5C, CHR ''u''] then
            (case hex4 (drop 6 cs) of
               None \<Rightarrow> None
             | Some lo \<Rightarrow>
                 if 0xDC00 \<le> lo \<and> lo \<le> 0xDFFF
                 then Some (0x10000 + (hi - 0xD800) * 1024 + (lo - 0xDC00), 10)
                 else Some (hi, 4))
          else Some (hi, 4))"

function unescape :: "string \<Rightarrow> string option" where
  "unescape [] = Some []"
| "unescape (c # cs) =
     (if c = CHR 0x5C then
        (case cs of
           [] \<Rightarrow> None
         | e # cs' \<Rightarrow>
             if e = CHR ''u'' then
               (case escaped_unicode cs' of
                  None \<Rightarrow> None
                | Some (n, k) \<Rightarrow> map_option (\<lambda>r. utf8 n @ r) (unescape (drop k cs')))
             else
               (case simple_escape e of
                  None \<Rightarrow> None
                | Some d \<Rightarrow> map_option (\<lambda>r. d # r) (unescape cs')))
      else if (of_char c :: nat) < 32 then None
      else map_option (\<lambda>r. c # r) (unescape cs))"
  by pat_completeness auto
termination
  by (relation "measure length") auto

subsection \<open>Tokens\<close>

datatype token =
    LBrace | RBrace | LBracket | RBracket | Colon | Comma
  | Str string
  | Scalar py_value

datatype lex_state =
    Default
  | InString string
  | Escaped string
  | InRun string

text \<open>
  \<open>InString raw\<close> and \<open>InRun raw\<close> hold what was read of the token so far, last character
  first. A run starts only at a character that can start a literal name or a number.
\<close>

definition punctuation :: "char \<Rightarrow> token option" where
  "punctuation c =
     (if c = CHR ''{'' then Some LBrace
      else if c = CHR ''}'' then Some RBrace
      else if c = CHR ''['' then Some LBracket
      else if c = CHR '']'' then Some RBracket
      else if c = CHR '':'' then Some Colon
      else if c = CHR '','' then Some Comma
      else None)"

definition run_start :: "char \<Rightarrow> bool" where
  "run_start c = (digit c \<or> c = CHR ''-'' \<or> c = CHR ''t'' \<or> c = CHR ''f'' \<or> c = CHR ''n''
                  \<or> c = CHR ''N'' \<or> c = CHR ''I'')"

definition run_char :: "char \<Rightarrow> bool" where
  "run_char c = (digit c \<or> letter c \<or> c = CHR ''-'' \<or> c = CHR ''+'' \<or> c = CHR ''.'')"

definition lex_default :: "char \<Rightarrow> (token list \<times> lex_state) option" where
  "lex_default c =
     (if whitespace c then Some ([], Default)
      else if c = CHR 0x22 then Some ([], InString [])
      else if run_start c then Some ([], InRun [c])
      else map_option (\<lambda>t. ([t], Default)) (punctuation c))"

fun lex_step :: "lex_state \<Rightarrow> char \<Rightarrow> (token list \<times> lex_state) option" where
  "lex_step Default c = lex_default c"
| "lex_step (InString raw) c =
     (if c = CHR 0x22 then map_option (\<lambda>s. ([Str s], Default)) (unescape (rev raw))
      else if c = CHR 0x5C then Some ([], Escaped (c # raw))
      else Some ([], InString (c # raw)))"
| "lex_step (Escaped raw) c = Some ([], InString (c # raw))"
| "lex_step (InRun raw) c =
     (if run_char c then Some ([], InRun (c # raw))
      else
        (case bare_value (rev raw) of
           None \<Rightarrow> None
         | Some v \<Rightarrow> map_option (\<lambda>(ts, st). (Scalar v # ts, st)) (lex_default c)))"

fun lex_from :: "lex_state \<Rightarrow> string \<Rightarrow> token list option" where
  "lex_from Default [] = Some []"
| "lex_from (InRun raw) [] = map_option (\<lambda>v. [Scalar v]) (bare_value (rev raw))"
| "lex_from st [] = None"
| "lex_from st (c # cs) =
     (case lex_step st c of
        None \<Rightarrow> None
      | Some (ts, st') \<Rightarrow> map_option (\<lambda>r. ts @ r) (lex_from st' cs))"

subsection \<open>Assembling values\<close>

text \<open>
  A key that is stored twice keeps its first place and takes the last value, as in a
  Python \<^verbatim>\<open>dict\<close>.
\<close>

fun dict_set :: "(string \<times> py_value) list \<Rightarrow> string \<Rightarrow> py_value \<Rightarrow> (string \<times> py_value) list" where
  "dict_set [] k v = [(k, v)]"
| "dict_set ((k', v') # kvs) k v =
     (if k' = k then (k, v) # kvs else (k', v') # dict_set kvs k v)"

text \<open>
  An open container: an array with its items (last first), an object that waits for a key
  or a comma, an object that has read a key and waits for its value.
\<close>

datatype frame =
    InArray "py_value list"
  | InObject "(string \<times> py_value) list"
  | InMember "(string \<times> py_value) list" string

datatype expect =
    AValue
  | AValueOrClose
  | AKey
  | AKeyOrClose
  | AColon
  | ACommaOrClose
  | Finished py_value

fun reduce :: "frame list \<Rightarrow> py_value \<Rightarrow> (frame list \<times> expect) option" where
  "reduce [] v = Some ([], Finished v)"
| "reduce (InArray items # fs) v = Some (InArray (v # items) # fs, ACommaOrClose)"
| "reduce (InMember kvs k # fs) v = Some (InObject (dict_set kvs k v) # fs, ACommaOrClose)"
| "reduce (InObject kvs # fs) v = None"

definition value_token :: "frame list \<Rightarrow> token \<Rightarrow> (frame list \<times> expect) option" where
  "value_token fs t =
     (case t of
        Scalar v \<Rightarrow> reduce fs v
      | Str s \<Rightarrow> reduce fs (PyStr s)
      | LBrace \<Rightarrow> Some (InObject [] # fs, AKeyOrClose)
      | LBracket \<Rightarrow> Some (InArray [] # fs, AValueOrClose)
      | _ \<Rightarrow> None)"

definition key_token :: "frame list \<Rightarrow> token \<Rightarrow> (frame list \<times> expect) option" where
  "key_token fs t =
     (case (t, fs) of
        (Str k, InObject kvs # fs') \<Rightarrow> Some (InMember kvs k # fs', AColon)
      | _ \<Rightarrow> None)"

definition close_token :: "frame list \<Rightarrow> token \<Rightarrow> (frame list \<times> expect) option" where
  "close_token fs t =
     (case (t, fs) of
        (RBracket, InArray items # fs') \<Rightarrow> reduce fs' (PyList (rev items))
      | (RBrace, InObject kvs # fs') \<Rightarrow> reduce fs' (PyDict kvs)
      | _ \<Rightarrow> None)"

fun parse_step :: "expect \<Rightarrow> frame list \<Rightarrow> token \<Rightarrow> (frame list \<times> expect) option" where
  "parse_step AValue fs t = value_token fs t"
| "parse_step AValueOrClose fs t = (if t = RBracket then close_token fs t else value_token fs t)"
| "parse_step AKey fs t = key_token fs t"
| "parse_step AKeyOrClose fs t = (if t = RBrace then close_token fs t else key_token fs t)"
| "parse_step AColon fs t = (if t = Colon then Some (fs, AValue) else None)"
| "parse_step ACommaOrClose fs t =
     (if t = Comma then
        (case fs of
           InArray items # fs' \<Rightarrow> Some (fs, AValue)
         | InObject kvs # fs' \<Rightarrow> Some (fs, AKey)
         | _ \<Rightarrow> None)
      else close_token fs t)"
| "parse_step (Finished v) fs t = None"

fun parse_from :: "expect \<Rightarrow> frame list \<Rightarrow> token list \<Rightarrow> py_value option" where
  "parse_from (Finished v) fs [] = Some v"
| "parse_from ex fs [] = None"
| "parse_from ex fs (t # ts) =
     (case parse_step ex fs t of
        None \<Rightarrow> None
      | Some (fs', ex') \<Rightarrow> parse_from ex' fs' ts)"

definition json_loads :: "string \<Rightarrow> py_value py_result" where
  "json_loads s =
     (case lex_from Default s of
        None \<Rightarrow> Raise (PyExc JSONDecodeError [])
      | Some ts \<Rightarrow>
          (case parse_from AValue [] ts of
             None \<Rightarrow> Raise (PyExc JSONDecodeError [])
           | Some v \<Rightarrow> Return v))"

section \<open>The pydantic classes of the two scripts\<close>

text \<open>
  Both scripts declare a class \<^verbatim>\<open>UserDetails(BaseModel)\<close>. A declaration lists, for each
  field, its name, its annotation, the description given to \<^verbatim>\<open>Field\<close> and the default given
  to \<^verbatim>\<open>Field\<close>, if any. The scripts run on pydantic 2 (\<^verbatim>\<open>ollama_instructor_demo.py\<close> calls
  \<^verbatim>\<open>model_dump_json\<close>), where a field is required exactly when its declaration gives no
  default, whatever its annotation: \<^verbatim>\<open>Optional[str]\<close> says that \<^verbatim>\<open>None\<close> is a value of the
  field, not that the field may be left out.
\<close>

datatype annotation = Ann_str | Ann_int | Ann_Optional annotation

record field_decl =
  field_name :: string
  field_annotation :: annotation
  description :: string
  default_value :: "py_value option"

record model_class =
  model_name :: string
  model_fields :: "field_decl list"

definition required :: "field_decl \<Rightarrow> bool" where
  "required f = (default_value f = None)"

text \<open>\<^verbatim>\<open>ollama_instructor_demo.py\<close>, lines 11 to 14: no field has a default.\<close>

definition UserDetails_ollama :: model_class where
  "UserDetails_ollama =
     \<lparr>model_name = ''UserDetails'',
      model_fields =
        [\<lparr>field_name = ''name'', field_annotation = Ann_str,
          description = ''The user's full name, extracted from the text.'',
          default_value = None\<rparr>,
         \<lparr>field_name = ''age'', field_annotation = Ann_int,
          description = ''The user's age in years, extracted from the text.'',
          default_value = None\<rparr>,
         \<lparr>field_name = ''city'', field_annotation = Ann_Optional Ann_str,
          description = ''The city where the user lives, if mentioned.'',
          default_value = None\<rparr>]\<rparr>"

text \<open>\<^verbatim>\<open>structured_output_demo.py\<close>, lines 67 to 71: \<^verbatim>\<open>location\<close> has the default \<^verbatim>\<open>None\<close>.\<close>

definition UserDetails :: model_class where
  "UserDetails =
     \<lparr>model_name = ''UserDetails'',
      model_fields =
        [\<lparr>field_name = ''name'', field_annotation = Ann_str,
          description = ''The user's full name.'',
          default_value = None\<rparr>,
         \<lparr>field_name = ''age'', field_annotation = Ann_int,
          description = ''The user's age in years.'',
          default_value = None\<rparr>,
         \<lparr>field_name = ''location'', field_annotation = Ann_Optional Ann_str,
          description = ''The city where the user lives.'',
          default_value = Some PyNone\<rparr>]\<rparr>"

text \<open>
  An instance holds a value for every declared field, in the order of the declaration.
  A value has the type of an annotation as follows; \<^verbatim>\<open>None\<close> is how an instance says that
  an optional value is absent.
\<close>

type_synonym model_instance = "(string \<times> py_value) list"

fun has_type :: "annotation \<Rightarrow> py_value \<Rightarrow> bool" where
  "has_type Ann_str (PyStr s) = True"
| "has_type Ann_int (PyInt n) = True"
| "has_type (Ann_Optional a) v = (v = PyNone \<or> has_type a v)"
| "has_type a v = False"

text \<open>
  A mapping satisfies a class when it gives every declared field a value of the declared
  type (the invariant of the spec's data model).
\<close>

definition field_satisfied :: "(string \<times> py_value) list \<Rightarrow> field_decl \<Rightarrow> bool" where
  "field_satisfied m f =
     (case map_of m (field_name f) of
        None \<Rightarrow> False
      | Some v \<Rightarrow> has_type (field_annotation f) v)"

definition satisfies :: "model_class \<Rightarrow> (string \<times> py_value) list \<Rightarrow> bool" where
  "satisfies cls m = list_all (field_satisfied m) (model_fields cls)"

text \<open>
  A class is well formed when its field names are distinct and every default has the type
  of its field. Both classes of the scripts are.
\<close>

definition default_ok :: "field_decl \<Rightarrow> bool" where
  "default_ok f =
     (case default_value f of
        None \<Rightarrow> True
      | Some d \<Rightarrow> has_type (field_annotation f) d)"

definition well_formed :: "model_class \<Rightarrow> bool" where
  "well_formed cls =
     (distinct (map field_name (model_fields cls)) \<and> list_all default_ok (model_fields cls))"

section \<open>Validation\<close>

text \<open>
  Modelled from the spec: \<^verbatim>\<open>validate(schema, candidate)\<close> of section 4.1. The validator that
  the scripts use is the pydantic library, which is not among the sources. Every required
  field must be present and convertible to its declared type without loss (a string is an
  integer only if it parses as one); a field with a default may be absent and then takes
  the default; a field annotated \<^verbatim>\<open>Optional\<close> may be null. The outcome is \<open>Valid\<close> with the
  typed value or \<open>Invalid\<close> with one error (field name and reason) for each field that
  failed; a candidate with some fields right and some wrong is \<open>Invalid\<close>.
\<close>

type_synonym field_error = "string \<times> string"

datatype validation_outcome = Valid model_instance | Invalid "field_error list"

fun convert :: "annotation \<Rightarrow> py_value \<Rightarrow> py_value option" where
  "convert Ann_str (PyStr s) = Some (PyStr s)"
| "convert Ann_int (PyInt n) = Some (PyInt n)"
| "convert Ann_int (PyStr s) = map_option PyInt (int_literal s)"
| "convert (Ann_Optional a) v = (if v = PyNone then Some PyNone else convert a v)"
| "convert a v = None"

text \<open>
  A candidate is acceptable for a field when it gives the field a value that converts to
  the type of the field, or gives it none and the declaration has a default.
\<close>

definition field_acceptable :: "(string \<times> py_value) list \<Rightarrow> field_decl \<Rightarrow> bool" where
  "field_acceptable c f =
     (case map_of c (field_name f) of
        None \<Rightarrow> default_value f \<noteq> None
      | Some v \<Rightarrow> convert (field_annotation f) v \<noteq> None)"

fun type_error :: "annotation \<Rightarrow> string" where
  "type_error Ann_str = ''Input should be a valid string''"
| "type_error Ann_int = ''Input should be a valid integer''"
| "type_error (Ann_Optional a) = type_error a"

definition validate_field :: "field_decl \<Rightarrow> (string \<times> py_value) list \<Rightarrow> field_error + py_value" where
  "validate_field f c =
     (case map_of c (field_name f) of
        None \<Rightarrow>
          (case default_value f of
             None \<Rightarrow> Inl (field_name f, ''Field required'')
           | Some d \<Rightarrow> Inr d)
      | Some v \<Rightarrow>
          (case convert (field_annotation f) v of
             None \<Rightarrow> Inl (field_name f, type_error (field_annotation f))
           | Some v' \<Rightarrow> Inr v'))"

fun validate_fields :: "field_decl list \<Rightarrow> (string \<times> py_value) list \<Rightarrow> field_error list \<times> model_instance" where
  "validate_fields [] c = ([], [])"
| "validate_fields (f # fs) c =
     (case validate_field f c of
        Inl e \<Rightarrow> (e # fst (validate_fields fs c), snd (validate_fields fs c))
      | Inr v \<Rightarrow> (fst (validate_fields fs c), (field_name f, v) # snd (validate_fields fs c)))"

definition validate :: "model_class \<Rightarrow> (string \<times> py_value) list \<Rightarrow> validation_outcome" where
  "validate cls c =
     (case validate_fields (model_fields cls) c of
        ([], inst) \<Rightarrow> Valid inst
      | (e # es, inst) \<Rightarrow> Invalid (e # es))"

fun render_errors :: "field_error list \<Rightarrow> string" where
  "render_errors [] = []"
| "render_errors ((n, why) # es) = n @ '': '' @ why @ ''\<newline>'' @ render_errors es"

text \<open>
  Calling the class with keyword arguments (\<^verbatim>\<open>UserDetails(name=..., ...)\<close>) validates them
  and returns the instance, or raises \<^verbatim>\<open>ValidationError\<close>.
\<close>

definition model_init :: "model_class \<Rightarrow> (string \<times> py_value) list \<Rightarrow> model_instance py_result" where
  "model_init cls kwargs =
     (case validate cls kwargs of
        Valid inst \<Rightarrow> Return inst
      | Invalid errs \<Rightarrow> Raise (PyExc ValidationError (render_errors errs)))"

section \<open>\<^verbatim>\<open>structured_output_demo.py\<close>\<close>

text \<open>
  Standard output is the list of the strings printed so far, one for each call of
  \<^verbatim>\<open>print\<close>; a function that prints takes the list and returns it extended.
\<close>

subsection \<open>Method 1: the schema in the prompt\<close>

definition method1_prompt :: "string \<Rightarrow> string" where
  "method1_prompt text_in =
     ''\<newline>    Extract the user's name, age, and city from the following text.''
     @ ''\<newline>    Return the information as a valid JSON object with the keys \"name\", \"age\", and \"location\".''
     @ ''\<newline>\<newline>    Input text: \"'' @ text_in @ ''\"''
     @ ''\<newline>\<newline>    JSON output:\<newline>    ''"

definition simulated_llm_response :: string where
  "simulated_llm_response =
     ''{\<newline>  \"name\": \"Alice\",\<newline>  \"age\": 34,\<newline>  \"location\": \"New York\"\<newline>}''"

text \<open>
  Lines 38 to 44, as a function of the response they parse: \<^verbatim>\<open>json.loads\<close> of the whole
  response; on \<^verbatim>\<open>JSONDecodeError\<close> a message is printed and \<^verbatim>\<open>None\<close> returned.
\<close>

definition parse_response :: "string \<Rightarrow> string list \<Rightarrow> py_value option py_result \<times> string list" where
  "parse_response response out =
     (case json_loads response of
        Return structured_data \<Rightarrow> (Return (Some structured_data), out)
      | Raise e \<Rightarrow>
          if isinstance_JSONDecodeError e then
            (Return None,
             out @ [''--- Method 1: FAILED to parse JSON. The LLM response was not valid JSON.''])
          else (Raise e, out))"

definition get_user_details_from_prompt :: "string \<Rightarrow> string list \<Rightarrow> py_value option py_result \<times> string list" where
  "get_user_details_from_prompt text_in out =
     parse_response simulated_llm_response
       (out @ [''--- Method 1: Prompt Sent to LLM ---\<newline>'' @ method1_prompt text_in,
               ''--- Method 1: Raw LLM Response ---\<newline>'' @ simulated_llm_response @ ''\<newline>''])"

subsection \<open>Method 2: a pydantic class\<close>

definition method2_prompt :: "string \<Rightarrow> string" where
  "method2_prompt text_in =
     ''Extract the user's details from the following text: '' @ [CHR 0x27] @ text_in @ [CHR 0x27]"

definition get_user_details_with_pydantic :: "string \<Rightarrow> string list \<Rightarrow> model_instance py_result \<times> string list" where
  "get_user_details_with_pydantic text_in out =
     (model_init UserDetails
        [(''name'', PyStr ''Alice''), (''age'', PyInt 34), (''location'', PyStr ''New York'')],
      out @ [''--- Method 2: Prompt Sent to LLM ---\<newline>'' @ method2_prompt text_in,
             ''--- Method 2: Pydantic `response_model` provided ---\<newline>''
               @ model_name UserDetails @ ''\<newline>''])"

section \<open>\<^verbatim>\<open>ollama_instructor_demo.py\<close>\<close>

text \<open>
  \<^verbatim>\<open>client.chat.completions.create\<close> belongs to the instructor library and talks to the
  inference server: it is a parameter \<open>create\<close> of the model. It takes the keyword arguments
  of the call and the state of the client and the server behind it, and returns an
  instance or raises, with the new state.
\<close>

record completion_request =
  messages :: "(string \<times> string) list"
  response_model :: model_class
  max_retries :: nat

text \<open>The keyword arguments of the call at lines 48 to 52.\<close>

definition completion_kwargs :: "string \<Rightarrow> completion_request" where
  "completion_kwargs text_in =
     \<lparr>messages = [(''user'', ''Extract the user details from this text: '' @ text_in)],
      response_model = UserDetails_ollama,
      max_retries = 3\<rparr>"

text \<open>
  Lines 27 to 58. The world is what was printed so far and the state behind the client.
  The two lines before \<^verbatim>\<open>try\<close> are printed in every case; \<^verbatim>\<open>except Exception\<close> catches what
  derives from \<^verbatim>\<open>Exception\<close>, prints three lines and returns \<^verbatim>\<open>None\<close>; any other exception
  propagates.
\<close>

definition extract_user_details ::
  "(completion_request \<Rightarrow> 'c \<Rightarrow> model_instance py_result \<times> 'c) \<Rightarrow> string \<Rightarrow> string list \<times> 'c
     \<Rightarrow> model_instance option py_result \<times> string list \<times> 'c" where
  "extract_user_details create text_in w =
     (let out = fst w @ [''--- Attempting to extract user details ---'',
                         ''Input text: '' @ [CHR 0x27] @ text_in @ [CHR 0x27]]
      in case create (completion_kwargs text_in) (snd w) of
           (Return user, c) \<Rightarrow> (Return (Some user), out, c)
         | (Raise e, c) \<Rightarrow>
             if isinstance_Exception e then
               (Return None,
                out @ [''An error occurred: '' @ str_of e,
                       ''This could be because the Ollama server is not running,'',
                       ''or the specified model ('llama3') is not available.''],
                c)
             else (Raise e, out, c))"

text \<open>Line 65.\<close>

definition input_text :: string where
  "input_text = ''My name is John Doe, I am 30 years old and I live in New York City.''"

section \<open>The validating extractor\<close>

text \<open>
  Modelled from the spec: the orchestration of section 4.3, with \<^verbatim>\<open>describe\<close> of section 4.1
  and the failures of section 7. In the scripts this is the work of the instructor library
  behind \<^verbatim>\<open>create\<close>, which is not among the sources. The backend is a function \<open>complete\<close>
  from the prompt and the backend's state to a raw response or a transport failure, with
  the new state. The log keeps every prompt sent and a record of every attempt that got
  a response.
\<close>

datatype failure_reason = TransportFailure py_exception | ValidationFailure "field_error list"

datatype extraction_result = Success model_instance | Failed failure_reason

record attempt_record =
  attempt_index :: nat
  raw_response :: string
  outcome :: validation_outcome

record pipeline_log =
  prompts_sent :: "string list"
  attempts :: "attempt_record list"

fun type_name :: "annotation \<Rightarrow> string" where
  "type_name Ann_str = ''string''"
| "type_name Ann_int = ''integer''"
| "type_name (Ann_Optional a) = ''optional '' @ type_name a"

definition describe_field :: "field_decl \<Rightarrow> string" where
  "describe_field f =
     ''- '' @ field_name f @ '' ('' @ type_name (field_annotation f) @ '', ''
     @ (if required f then ''required'' else ''optional'') @ ''): '' @ description f @ ''\<newline>''"

definition describe :: "model_class \<Rightarrow> string" where
  "describe cls = concat (map describe_field (model_fields cls))"

definition initial_prompt :: "model_class \<Rightarrow> string \<Rightarrow> string" where
  "initial_prompt cls text_in = describe cls @ text_in"

definition corrective_prompt :: "model_class \<Rightarrow> string \<Rightarrow> field_error list \<Rightarrow> string" where
  "corrective_prompt cls raw errs =
     ''The previous response was:\<newline>'' @ raw @ ''\<newline>It has these errors:\<newline>''
     @ render_errors errs @ describe cls"

text \<open>
  Modelled from the spec: parsing is tolerant of text around the payload. The whole
  response is tried first, then what stands from its first opening brace to its last
  closing brace. The spec does not say what a response without a payload is; here it is
  \<open>Invalid\<close> with one error that names no field, and so retried like other bad content.
\<close>

definition braces_span :: "string \<Rightarrow> string" where
  "braces_span r =
     rev (dropWhile (\<lambda>c. c \<noteq> CHR ''}'') (rev (dropWhile (\<lambda>c. c \<noteq> CHR ''{'') r)))"

definition locate_payload :: "string \<Rightarrow> (string \<times> py_value) list option" where
  "locate_payload r =
     (case json_loads r of
        Return (PyDict kvs) \<Rightarrow> Some kvs
      | _ \<Rightarrow>
          (case json_loads (braces_span r) of
             Return (PyDict kvs) \<Rightarrow> Some kvs
           | _ \<Rightarrow> None))"

definition check_response :: "model_class \<Rightarrow> string \<Rightarrow> validation_outcome" where
  "check_response cls raw =
     (case locate_payload raw of
        None \<Rightarrow> Invalid [([], ''no JSON object found in the response'')]
      | Some c \<Rightarrow> validate cls c)"

function attempting ::
  "(string \<Rightarrow> 'b \<Rightarrow> string py_result \<times> 'b) \<Rightarrow> model_class \<Rightarrow> nat \<Rightarrow> nat \<Rightarrow> string
     \<Rightarrow> 'b \<times> pipeline_log \<Rightarrow> extraction_result \<times> 'b \<times> pipeline_log" where
  "attempting complete cls maxRetries n prompt s =
     (case complete prompt (fst s) of
        (Raise e, b) \<Rightarrow>
          (Failed (TransportFailure e),
           b, (snd s)\<lparr>prompts_sent := prompts_sent (snd s) @ [prompt]\<rparr>)
      | (Return raw, b) \<Rightarrow>
          (case check_response cls raw of
             Valid v \<Rightarrow>
               (Success v,
                b, \<lparr>prompts_sent = prompts_sent (snd s) @ [prompt],
                    attempts = attempts (snd s)
                      @ [\<lparr>attempt_index = n, raw_response = raw, outcome = Valid v\<rparr>]\<rparr>)
           | Invalid errs \<Rightarrow>
               if n < maxRetries then
                 attempting complete cls maxRetries (Suc n) (corrective_prompt cls raw errs)
                   (b, \<lparr>prompts_sent = prompts_sent (snd s) @ [prompt],
                        attempts = attempts (snd s)
                          @ [\<lparr>attempt_index = n, raw_response = raw, outcome = Invalid errs\<rparr>]\<rparr>)
               else
                 (Failed (ValidationFailure errs),
                  b, \<lparr>prompts_sent = prompts_sent (snd s) @ [prompt],
                      attempts = attempts (snd s)
                        @ [\<lparr>attempt_index = n, raw_response = raw, outcome = Invalid errs\<rparr>]\<rparr>)))"
  by pat_completeness auto
termination
  by (relation "measure (\<lambda>(complete, cls, maxRetries, n, prompt, s). maxRetries - n)") auto

declare attempting.simps [simp del]

definition empty_log :: pipeline_log where
  "empty_log = \<lparr>prompts_sent = [], attempts = []\<rparr>"

definition validating_extractor ::
  "(string \<Rightarrow> 'b \<Rightarrow> string py_result \<times> 'b) \<Rightarrow> string \<Rightarrow> model_class \<Rightarrow> nat \<Rightarrow> 'b
     \<Rightarrow> extraction_result \<times> 'b \<times> pipeline_log" where
  "validating_extractor complete text_in cls maxRetries b =
     attempting complete cls maxRetries 0 (initial_prompt cls text_in) (b, empty_log)"

text \<open>
  Modelled from the spec: the extractor behind the call of \<^verbatim>\<open>create\<close>. The text is the
  content of the messages, the schema is \<^verbatim>\<open>response_model\<close>, the bound is \<^verbatim>\<open>max_retries\<close>; a
  failure is raised as an exception (a transport failure as the exception that caused it).
\<close>

definition create_by_extractor ::
  "(string \<Rightarrow> 'b \<Rightarrow> string py_result \<times> 'b) \<Rightarrow> completion_request \<Rightarrow> 'b \<times> pipeline_log
     \<Rightarrow> model_instance py_result \<times> 'b \<times> pipeline_log" where
  "create_by_extractor complete req s =
     (case validating_extractor complete (concat (map snd (messages req)))
             (response_model req) (max_retries req) (fst s) of
        (Success v, s') \<Rightarrow> (Return v, s')
      | (Failed (TransportFailure e), s') \<Rightarrow> (Raise e, s')
      | (Failed (ValidationFailure errs), s') \<Rightarrow>
          (Raise (PyExc ValidationError (render_errors errs)), s'))"

text \<open>
  A backend for tests, as the spec's design notes ask for: it answers from a script, one
  entry for each call, whatever the prompt; a script that has run out is a backend that
  cannot be reached.
\<close>

definition scripted :: "string \<Rightarrow> string py_result list \<Rightarrow> string py_result \<times> string py_result list" where
  "scripted prompt script =
     (case script of
        [] \<Rightarrow> (Raise (PyExc ConnectionError ''connection refused''), [])
      | r # rs \<Rightarrow> (r, rs))"

section \<open>Inputs of the scenarios\<close>

text \<open>The responses of the spec's two end-to-end scenarios, and a response with prose before its payload.\<close>

definition john_doe_response :: string where
  "john_doe_response = ''{\"name\":\"John Doe\",\"age\":30,\"city\":\"New York City\"}''"

definition bob_thirty_response :: string where
  "bob_thirty_response = ''{\"name\":\"Bob\",\"age\":\"thirty\"}''"

definition bob_30_response :: string where
  "bob_30_response = ''{\"name\":\"Bob\",\"age\":30}''"


text \<open>Clients whose call of \<^verbatim>\<open>create\<close> raises: the exception is the only thing that differs.\<close>

definition raising_client :: "py_exception \<Rightarrow> completion_request \<Rightarrow> unit \<Rightarrow> model_instance py_result \<times> unit" where
  "raising_client e req c = (Raise e, c)"

definition server_down :: py_exception where
  "server_down = PyExc ConnectionError ''connection refused''"

definition retries_exhausted :: py_exception where
  "retries_exhausted = PyExc ValidationError ''age: Input should be a valid integer''"

definition interrupted :: py_exception where
  "interrupted = PyExc KeyboardInterrupt []"

text \<open>A backend that gives the same response to every prompt.\<close>

definition repeating :: "string \<Rightarrow> string \<Rightarrow> unit \<Rightarrow> string py_result \<times> unit" where
  "repeating r prompt b = (Return r, b)"

section \<open>Properties\<close>

subsection \<open>The simulated functions\<close>

lemma simulated_response_decodes:
  "json_loads simulated_llm_response =
     Return (PyDict [(''name'', PyStr ''Alice''), (''age'', PyInt 34),
                     (''location'', PyStr ''New York'')])"
  by code_simp

lemma alice_init:
  "model_init UserDetails
     [(''name'', PyStr ''Alice''), (''age'', PyInt 34), (''location'', PyStr ''New York'')]
   = Return [(''name'', PyStr ''Alice''), (''age'', PyInt 34), (''location'', PyStr ''New York'')]"
  by code_simp

lemma UserDetails_name: "model_name UserDetails = ''UserDetails''"
  by (simp add: UserDetails_def)

text \<open>
  Claim C10. The two simulated functions return the same value for every input text:
  \<^verbatim>\<open>get_user_details_from_prompt\<close> the mapping with name Alice, age 34 and location New York,
  \<^verbatim>\<open>get_user_details_with_pydantic\<close> the instance with these three values. The input text
  reaches only the prompt that is printed.
\<close>

theorem simulated_outputs_ignore_input:
  "fst (get_user_details_from_prompt t1 out1) =
     Return (Some (PyDict [(''name'', PyStr ''Alice''), (''age'', PyInt 34),
                           (''location'', PyStr ''New York'')]))
   \<and> fst (get_user_details_from_prompt t2 out2) = fst (get_user_details_from_prompt t1 out1)
   \<and> fst (get_user_details_with_pydantic t1 out1) =
     Return [(''name'', PyStr ''Alice''), (''age'', PyInt 34), (''location'', PyStr ''New York'')]
   \<and> fst (get_user_details_with_pydantic t2 out2) = fst (get_user_details_with_pydantic t1 out1)
   \<and> snd (get_user_details_from_prompt t1 out1) =
       out1 @ [''--- Method 1: Prompt Sent to LLM ---\<newline>'' @ method1_prompt t1,
               ''--- Method 1: Raw LLM Response ---\<newline>'' @ simulated_llm_response @ ''\<newline>'']
   \<and> snd (get_user_details_with_pydantic t1 out1) =
       out1 @ [''--- Method 2: Prompt Sent to LLM ---\<newline>'' @ method2_prompt t1,
               ''--- Method 2: Pydantic `response_model` provided ---\<newline>UserDetails\<newline>'']"
  by (simp add: get_user_details_from_prompt_def parse_response_def simulated_response_decodes
      get_user_details_with_pydantic_def alice_init UserDetails_name)

subsection \<open>Exceptions of the completion call\<close>

text \<open>
  Against claim C9 as it is stated: when the call of \<^verbatim>\<open>create\<close> is interrupted from the
  keyboard, \<^verbatim>\<open>except Exception\<close> does not catch the \<^verbatim>\<open>KeyboardInterrupt\<close> and
  \<^verbatim>\<open>extract_user_details\<close> raises it to its caller.
\<close>

theorem interrupt_propagates:
  "fst (extract_user_details (raising_client interrupted) input_text ([], ())) = Raise interrupted"
  by (simp add: extract_user_details_def raising_client_def interrupted_def isinstance_Exception_def)

text \<open>
  Claim C9, amended. For every input text, an exception raised by the completion call that
  is an instance of \<^verbatim>\<open>Exception\<close> is caught, and \<^verbatim>\<open>extract_user_details\<close> then returns \<^verbatim>\<open>None\<close>
  and not a \<^verbatim>\<open>UserDetails\<close> value; an exception of any other class is raised to the caller.
\<close>

theorem exceptions_caught:
  assumes "create (completion_kwargs text_in) c = (Raise e, c')"
  shows "fst (extract_user_details create text_in (out, c)) =
           (if isinstance_Exception e then Return None else Raise e)"
  using assms by (simp add: extract_user_details_def)

theorem exceptions_caught_witness:
  "raising_client server_down (completion_kwargs input_text) () = (Raise server_down, ())
   \<and> isinstance_Exception server_down
   \<and> fst (extract_user_details (raising_client server_down) input_text ([], ())) = Return None"
  using exceptions_caught [of "raising_client server_down" input_text "()" server_down "()" "[]"]
  by (simp add: raising_client_def server_down_def isinstance_Exception_def)

text \<open>
  Against claim C4 as it is stated: a server that cannot be reached and a response that
  failed validation to the end give the caller the same value, \<^verbatim>\<open>None\<close>. The cause is not
  part of what is returned.
\<close>

theorem cause_not_returned:
  "fst (extract_user_details (raising_client server_down) input_text ([], ())) = Return None
   \<and> fst (extract_user_details (raising_client retries_exhausted) input_text ([], ())) = Return None
   \<and> server_down \<noteq> retries_exhausted"
  by (simp add: extract_user_details_def raising_client_def server_down_def retries_exhausted_def
      isinstance_Exception_def)

text \<open>
  Claim C4, amended. When the completion call raises an \<^verbatim>\<open>Exception\<close>, as it does when the
  backend cannot be reached, \<^verbatim>\<open>extract_user_details\<close> does not call it again: the state it
  leaves is the state after that one call. It prints the message of the exception and two
  lines of advice, and returns \<^verbatim>\<open>None\<close>.
\<close>

theorem failure_printed_and_None:
  assumes "create (completion_kwargs text_in) c = (Raise e, c')"
    and "isinstance_Exception e"
  shows "extract_user_details create text_in (out, c) =
           (Return None,
            out @ [''--- Attempting to extract user details ---'',
                   ''Input text: '' @ [CHR 0x27] @ text_in @ [CHR 0x27],
                   ''An error occurred: '' @ str_of e,
                   ''This could be because the Ollama server is not running,'',
                   ''or the specified model ('llama3') is not available.''],
            c')"
  using assms by (simp add: extract_user_details_def)

theorem failure_printed_and_None_witness:
  "extract_user_details (raising_client server_down) input_text ([], ()) =
     (Return None,
      [''--- Attempting to extract user details ---'',
       ''Input text: '' @ [CHR 0x27] @ input_text @ [CHR 0x27],
       ''An error occurred: connection refused'',
       ''This could be because the Ollama server is not running,'',
       ''or the specified model ('llama3') is not available.''],
      ())"
  using failure_printed_and_None [of "raising_client server_down" input_text "()" server_down "()" "[]"]
  by (simp add: raising_client_def server_down_def isinstance_Exception_def)

subsection \<open>Parsing the response in method 1\<close>










subsection \<open>What validation accepts\<close>

lemma convert_has_type: "convert a v = Some v' \<Longrightarrow> has_type a v'"
  by (induction a v rule: convert.induct) (auto split: if_splits)

lemma validate_field_has_type:
  "default_ok f \<Longrightarrow> validate_field f c = Inr v \<Longrightarrow> has_type (field_annotation f) v"
  by (auto simp: validate_field_def default_ok_def convert_has_type split: option.splits)

lemma validate_fields_names: "fst ` set (snd (validate_fields fs c)) \<subseteq> field_name ` set fs"
  by (induction fs) (auto split: sum.splits)

lemma validate_fields_sound:
  "fst (validate_fields fs c) = [] \<Longrightarrow> distinct (map field_name fs) \<Longrightarrow> list_all default_ok fs
     \<Longrightarrow> list_all (field_satisfied (snd (validate_fields fs c))) fs"
proof (induction fs)
  case Nil
  then show ?case by simp
next
  case (Cons f fs)
  from Cons.prems(1) obtain v where v: "validate_field f c = Inr v"
    by (cases "validate_field f c") auto
  with Cons.prems(1) have rest: "fst (validate_fields fs c) = []" by simp
  have ih: "list_all (field_satisfied (snd (validate_fields fs c))) fs"
    using Cons.IH rest Cons.prems(2,3) by simp
  have distinct_names: "\<forall>g \<in> set fs. field_name g \<noteq> field_name f"
    using Cons.prems(2) by (force simp: image_iff)
  have others: "list_all (field_satisfied ((field_name f, v) # snd (validate_fields fs c))) fs"
    using ih distinct_names
    by (simp add: list_all_iff field_satisfied_def)
  have this_one: "field_satisfied ((field_name f, v) # snd (validate_fields fs c)) f"
    using validate_field_has_type [OF _ v] Cons.prems(3) by (simp add: field_satisfied_def)
  show ?case using v others this_one by simp
qed

text \<open>A value that validation returns satisfies the class.\<close>

lemma validate_sound:
  "well_formed cls \<Longrightarrow> validate cls c = Valid inst \<Longrightarrow> satisfies cls inst"
  using validate_fields_sound [of "model_fields cls" c]
  by (auto simp: validate_def satisfies_def well_formed_def split: prod.splits list.splits)

lemma check_response_sound:
  "well_formed cls \<Longrightarrow> check_response cls raw = Valid inst \<Longrightarrow> satisfies cls inst"
  by (auto simp: check_response_def validate_sound split: option.splits)

lemma UserDetails_ollama_well_formed: "well_formed UserDetails_ollama"
  by (simp add: well_formed_def UserDetails_ollama_def default_ok_def)

lemma UserDetails_well_formed: "well_formed UserDetails"
  by (simp add: well_formed_def UserDetails_def default_ok_def)

text \<open>
  Validation accepts every candidate that gives each field without a default a value that
  converts to the type of the field, and gives the other fields such a value or none.
\<close>

lemma acceptable_field_validates:
  "field_acceptable c f \<Longrightarrow> \<exists>v. validate_field f c = Inr v"
  by (auto simp: field_acceptable_def validate_field_def split: option.splits)

lemma acceptable_fields_no_error:
  "list_all (field_acceptable c) fs \<Longrightarrow> fst (validate_fields fs c) = []"
proof (induction fs)
  case Nil
  then show ?case by simp
next
  case (Cons f fs)
  then obtain v where "validate_field f c = Inr v"
    using acceptable_field_validates [of c f] by auto
  with Cons show ?case by simp
qed

lemma acceptable_candidate_valid:
  "list_all (field_acceptable c) (model_fields cls) \<Longrightarrow> \<exists>inst. validate cls c = Valid inst"
  using acceptable_fields_no_error [of c "model_fields cls"]
  by (cases "validate_fields (model_fields cls) c") (simp add: validate_def)

text \<open>
  Claim C5, at the input where the code departs from it. In \<^verbatim>\<open>ollama_instructor_demo.py\<close>
  the field \<^verbatim>\<open>city\<close> is declared without a default, so a candidate with a name and an age
  and no city is \<open>Invalid\<close>: the field is required. With \<^verbatim>\<open>city\<close> null the candidate is
  \<open>Valid\<close>, and so is the candidate without \<^verbatim>\<open>location\<close> for the class of
  \<^verbatim>\<open>structured_output_demo.py\<close>, whose declaration gives the default. A response with Bob
  and the age 30 alone is therefore rejected for the class with \<^verbatim>\<open>city\<close>.
\<close>

theorem city_absent_is_invalid:
  "validate UserDetails_ollama [(''name'', PyStr ''Bob''), (''age'', PyInt 30)] =
     Invalid [(''city'', ''Field required'')]
   \<and> validate UserDetails_ollama [(''name'', PyStr ''Bob''), (''age'', PyInt 30), (''city'', PyNone)] =
     Valid [(''name'', PyStr ''Bob''), (''age'', PyInt 30), (''city'', PyNone)]
   \<and> validate UserDetails [(''name'', PyStr ''Bob''), (''age'', PyInt 30)] =
     Valid [(''name'', PyStr ''Bob''), (''age'', PyInt 30), (''location'', PyNone)]
   \<and> check_response UserDetails_ollama bob_30_response = Invalid [(''city'', ''Field required'')]"
  by code_simp

subsection \<open>The extractor\<close>

lemma attempting_sound:
  "well_formed cls \<Longrightarrow> fst (attempting complete cls maxRetries n prompt s) = Success inst
     \<Longrightarrow> satisfies cls inst"
proof (induction complete cls maxRetries n prompt s rule: attempting.induct)
  case (1 complete cls maxRetries n prompt s)
  show ?case
  proof (cases "complete prompt (fst s)")
    case (Pair r b)
    show ?thesis
    proof (cases r)
      case (Raise e)
      with Pair "1.prems" show ?thesis
        by (simp add: attempting.simps [of complete cls maxRetries n prompt s])
    next
      case (Return raw)
      show ?thesis
      proof (cases "check_response cls raw")
        case (Valid v)
        with Pair Return "1.prems" show ?thesis
          by (simp add: attempting.simps [of complete cls maxRetries n prompt s]
              check_response_sound)
      next
        case (Invalid errs)
        show ?thesis
        proof (cases "n < maxRetries")
          case True
          with Pair Return Invalid "1.prems" "1.IH" [OF Pair [symmetric] Return Invalid True]
          show ?thesis
            by (simp add: attempting.simps [of complete cls maxRetries n prompt s])
        next
          case False
          with Pair Return Invalid "1.prems" show ?thesis
            by (simp add: attempting.simps [of complete cls maxRetries n prompt s])
        qed
      qed
    qed
  qed
qed

lemma create_by_extractor_sound:
  "well_formed (response_model req) \<Longrightarrow> create_by_extractor complete req s = (Return inst, s')
     \<Longrightarrow> satisfies (response_model req) inst"
  using attempting_sound [of "response_model req" complete "max_retries req" 0
      "initial_prompt (response_model req) (concat (map snd (messages req)))"
      "(fst s, empty_log)" inst]
  by (auto simp: create_by_extractor_def validating_extractor_def
      split: prod.splits extraction_result.splits failure_reason.splits)

lemma alice_satisfies:
  "satisfies UserDetails
     [(''name'', PyStr ''Alice''), (''age'', PyInt 34), (''location'', PyStr ''New York'')]"
  by code_simp

lemma john_extracted:
  "fst (create_by_extractor scripted (completion_kwargs input_text)
          ([Return john_doe_response], empty_log)) =
     Return [(''name'', PyStr ''John Doe''), (''age'', PyInt 30), (''city'', PyStr ''New York City'')]"
  by code_simp

text \<open>
  Claim C3. Every value that an operation of the scripts returns satisfies its class: every
  declared field is present with a value of the declared type, \<^verbatim>\<open>None\<close> standing for an
  optional value that is absent. For \<^verbatim>\<open>extract_user_details\<close> this rests on the library
  behind \<^verbatim>\<open>create\<close> returning only instances of \<^verbatim>\<open>response_model\<close>, which is the hypothesis;
  the function hands on what \<^verbatim>\<open>create\<close> returned and nothing else.
\<close>

theorem returned_values_satisfy_schema:
  assumes "\<forall>c u c'. create (completion_kwargs text_in) c = (Return u, c')
             \<longrightarrow> satisfies UserDetails_ollama u"
  shows "(\<forall>d. fst (get_user_details_from_prompt t out) = Return (Some d)
             \<longrightarrow> (\<exists>m. d = PyDict m \<and> satisfies UserDetails m))
       \<and> (\<forall>u. fst (get_user_details_with_pydantic t out) = Return u \<longrightarrow> satisfies UserDetails u)
       \<and> (\<forall>u. fst (extract_user_details create text_in w) = Return (Some u)
             \<longrightarrow> satisfies UserDetails_ollama u)"
proof (intro conjI allI impI)
  fix d
  assume "fst (get_user_details_from_prompt t out) = Return (Some d)"
  then show "\<exists>m. d = PyDict m \<and> satisfies UserDetails m"
    using alice_satisfies
    by (auto simp: get_user_details_from_prompt_def parse_response_def simulated_response_decodes)
next
  fix u
  assume "fst (get_user_details_with_pydantic t out) = Return u"
  then show "satisfies UserDetails u"
    using alice_satisfies by (auto simp: get_user_details_with_pydantic_def alice_init)
next
  fix u
  assume r: "fst (extract_user_details create text_in w) = Return (Some u)"
  obtain res c' where call: "create (completion_kwargs text_in) (snd w) = (res, c')"
    by (cases "create (completion_kwargs text_in) (snd w)")
  from r call have "res = Return u"
    by (cases res) (auto simp: extract_user_details_def Let_def split: if_splits)
  with call assms show "satisfies UserDetails_ollama u" by blast
qed

text \<open>
  The hypothesis holds of the extractor of the spec behind \<^verbatim>\<open>create\<close>, here with a backend
  that answers the first scenario's response.
\<close>

theorem returned_values_satisfy_schema_witness:
  "fst (extract_user_details (create_by_extractor scripted) input_text
          ([], [Return john_doe_response], empty_log)) =
     Return (Some [(''name'', PyStr ''John Doe''), (''age'', PyInt 30),
                   (''city'', PyStr ''New York City'')])
   \<and> satisfies UserDetails_ollama
       [(''name'', PyStr ''John Doe''), (''age'', PyInt 30), (''city'', PyStr ''New York City'')]"
proof -
  have contract: "\<forall>c u c'. create_by_extractor scripted (completion_kwargs input_text) c = (Return u, c')
      \<longrightarrow> satisfies UserDetails_ollama u"
    using create_by_extractor_sound [of "completion_kwargs input_text" scripted]
      UserDetails_ollama_well_formed
    by (simp add: completion_kwargs_def)
  have run: "fst (extract_user_details (create_by_extractor scripted) input_text
          ([], [Return john_doe_response], empty_log)) =
     Return (Some [(''name'', PyStr ''John Doe''), (''age'', PyInt 30),
                   (''city'', PyStr ''New York City'')])"
    using john_extracted
    by (cases "create_by_extractor scripted (completion_kwargs input_text)
                 ([Return john_doe_response], empty_log)")
       (simp add: extract_user_details_def)
  from returned_values_satisfy_schema [of "create_by_extractor scripted" input_text "[]" "[]"
      "([], [Return john_doe_response], empty_log)"] contract run
  show ?thesis by blast
qed

text \<open>
  Claim C1. For the input text of the script and the class with a name, an age and a city,
  when the backend answers the object with John Doe, 30 and New York City at the first
  attempt, the extractor succeeds after that one attempt and the typed value has these three
  values; \<^verbatim>\<open>extract_user_details\<close> returns it.
\<close>

theorem john_doe_scenario:
  "fst (validating_extractor scripted input_text UserDetails_ollama 3 [Return john_doe_response]) =
     Success [(''name'', PyStr ''John Doe''), (''age'', PyInt 30), (''city'', PyStr ''New York City'')]
   \<and> length (prompts_sent (snd (snd
        (validating_extractor scripted input_text UserDetails_ollama 3 [Return john_doe_response])))) = 1
   \<and> fst (extract_user_details (create_by_extractor scripted) input_text
             ([], [Return john_doe_response], empty_log)) =
       Return (Some [(''name'', PyStr ''John Doe''), (''age'', PyInt 30),
                     (''city'', PyStr ''New York City'')])"
  by code_simp

text \<open>
  Claim C7, at the input where the code departs from it. \<^verbatim>\<open>extract_user_details\<close> passes the
  class of \<^verbatim>\<open>ollama_instructor_demo.py\<close>, whose field \<^verbatim>\<open>city\<close> has no default. The first
  response, Bob with the age \<^verbatim>\<open>"thirty"\<close>, is \<open>Invalid\<close> with an error that names \<^verbatim>\<open>age\<close>
  (and one that names \<^verbatim>\<open>city\<close>); the response to the corrective prompt, Bob with the age 30,
  is \<open>Invalid\<close> again, for the missing \<^verbatim>\<open>city\<close>, so there is no \<open>Success\<close> at the second
  attempt: with the same response to every further prompt the retries run out and
  \<^verbatim>\<open>extract_user_details\<close> returns \<^verbatim>\<open>None\<close>. With the class of \<^verbatim>\<open>structured_output_demo.py\<close>,
  where \<^verbatim>\<open>location\<close> has a default, the same two responses give \<open>Success\<close> at the second
  attempt, as the claim says.
\<close>

theorem bob_retry_rejected_for_city:
  "check_response UserDetails_ollama bob_thirty_response =
     Invalid [(''age'', ''Input should be a valid integer''), (''city'', ''Field required'')]
   \<and> fst (validating_extractor scripted input_text UserDetails_ollama 3
            [Return bob_thirty_response, Return bob_30_response, Return bob_30_response,
             Return bob_30_response]) =
       Failed (ValidationFailure [(''city'', ''Field required'')])
   \<and> map outcome (attempts (snd (snd (validating_extractor scripted input_text UserDetails_ollama 3
            [Return bob_thirty_response, Return bob_30_response, Return bob_30_response,
             Return bob_30_response])))) =
       [Invalid [(''age'', ''Input should be a valid integer''), (''city'', ''Field required'')],
        Invalid [(''city'', ''Field required'')],
        Invalid [(''city'', ''Field required'')],
        Invalid [(''city'', ''Field required'')]]
   \<and> fst (extract_user_details (create_by_extractor scripted) input_text
            ([], [Return bob_thirty_response, Return bob_30_response, Return bob_30_response,
                  Return bob_30_response], empty_log)) = Return None
   \<and> fst (validating_extractor scripted ''Bob is thirty.'' UserDetails 3
            [Return bob_thirty_response, Return bob_30_response]) =
       Success [(''name'', PyStr ''Bob''), (''age'', PyInt 30), (''location'', PyNone)]
   \<and> map attempt_index (attempts (snd (snd (validating_extractor scripted ''Bob is thirty.''
            UserDetails 3 [Return bob_thirty_response, Return bob_30_response])))) = [0, 1]"
  by code_simp

text \<open>
  When every response is \<open>Invalid\<close>, the loop that starts at attempt \<open>n\<close> stops at attempt
  \<open>N\<close>: induction on the attempts that are left.
\<close>

lemma attempting_always_invalid:
  assumes inv: "\<forall>p b. \<exists>raw b' errs. complete p b = (Return raw, b')
                  \<and> check_response cls raw = Invalid errs"
  shows "n \<le> N \<Longrightarrow>
    \<exists>errs b' lg'. attempting complete cls N n prompt (b, lg) = (Failed (ValidationFailure errs), b', lg')
       \<and> length (prompts_sent lg') = length (prompts_sent lg) + (N - n + 1)
       \<and> length (attempts lg') = length (attempts lg) + (N - n + 1)
       \<and> outcome (last (attempts lg')) = Invalid errs
       \<and> attempt_index (last (attempts lg')) = N"
proof (induction "N - n" arbitrary: n prompt b lg)
  case 0
  then have n: "n = N" by simp
  from inv obtain raw b' errs where c: "complete prompt b = (Return raw, b')"
    and v: "check_response cls raw = Invalid errs" by blast
  show ?case unfolding n
    by (simp add: attempting.simps [of complete cls N N prompt "(b, lg)"] c v)
next
  case (Suc k)
  then have less: "n < N" and k: "k = N - Suc n" and le: "Suc n \<le> N" by simp_all
  from inv obtain raw b' errs where c: "complete prompt b = (Return raw, b')"
    and v: "check_response cls raw = Invalid errs" by blast
  let ?lg = "\<lparr>prompts_sent = prompts_sent lg @ [prompt],
              attempts = attempts lg
                @ [\<lparr>attempt_index = n, raw_response = raw, outcome = Invalid errs\<rparr>]\<rparr>"
  have step: "attempting complete cls N n prompt (b, lg) =
      attempting complete cls N (Suc n) (corrective_prompt cls raw errs) (b', ?lg)"
    by (simp add: attempting.simps [of complete cls N n prompt "(b, lg)"] c v less)
  from Suc.hyps(1) [OF k le, of "corrective_prompt cls raw errs" b' ?lg]
  obtain errs' b'' lg' where
    r: "attempting complete cls N (Suc n) (corrective_prompt cls raw errs) (b', ?lg)
          = (Failed (ValidationFailure errs'), b'', lg')"
    and p: "length (prompts_sent lg') = length (prompts_sent ?lg) + (N - Suc n + 1)"
    and a: "length (attempts lg') = length (attempts ?lg) + (N - Suc n + 1)"
    and o: "outcome (last (attempts lg')) = Invalid errs'"
    and i: "attempt_index (last (attempts lg')) = N"
    by blast
  show ?case
    using step r p a o i less by auto
qed

text \<open>
  Claim C2. For every bound \<open>N\<close>, when the candidate of every attempt is \<open>Invalid\<close>, the
  extractor returns \<open>Failed\<close> after exactly \<open>N + 1\<close> calls of the backend, the first attempt
  and \<open>N\<close> retries, and the failure carries the errors of the last attempt, which has the
  index \<open>N\<close>.
\<close>

theorem retries_bounded:
  assumes "\<forall>p b. \<exists>raw b' errs. complete p b = (Return raw, b')
             \<and> check_response cls raw = Invalid errs"
  shows "\<exists>errs b' lg.
           validating_extractor complete text_in cls N b = (Failed (ValidationFailure errs), b', lg)
           \<and> length (prompts_sent lg) = N + 1
           \<and> length (attempts lg) = N + 1
           \<and> outcome (last (attempts lg)) = Invalid errs
           \<and> attempt_index (last (attempts lg)) = N"
  using attempting_always_invalid [OF assms, of 0 N "initial_prompt cls text_in" b empty_log]
  by (simp add: validating_extractor_def empty_log_def)

lemma bob_thirty_invalid:
  "check_response UserDetails_ollama bob_thirty_response =
     Invalid [(''age'', ''Input should be a valid integer''), (''city'', ''Field required'')]"
  by code_simp

text \<open>The bound of the script, 3, with a backend that repeats a response with a wrong age: four calls.\<close>

theorem retries_bounded_witness:
  "\<exists>b' lg. validating_extractor (repeating bob_thirty_response) input_text UserDetails_ollama 3 () =
       (Failed (ValidationFailure
          [(''age'', ''Input should be a valid integer''), (''city'', ''Field required'')]), b', lg)
     \<and> length (prompts_sent lg) = 4 \<and> length (attempts lg) = 4"
proof -
  have inv: "\<forall>p b. \<exists>raw b' errs. repeating bob_thirty_response p b = (Return raw, b')
      \<and> check_response UserDetails_ollama raw = Invalid errs"
    by (simp add: repeating_def bob_thirty_invalid)
  from retries_bounded [OF inv, of input_text 3 "()"]
  obtain errs b' lg where
    r: "validating_extractor (repeating bob_thirty_response) input_text UserDetails_ollama 3 () =
          (Failed (ValidationFailure errs), b', lg)"
    and p: "length (prompts_sent lg) = 4" and a: "length (attempts lg) = 4"
    by auto
  have "fst (validating_extractor (repeating bob_thirty_response) input_text UserDetails_ollama 3 ()) =
      Failed (ValidationFailure
        [(''age'', ''Input should be a valid integer''), (''city'', ''Field required'')])"
    by code_simp
  with r have "errs = [(''age'', ''Input should be a valid integer''), (''city'', ''Field required'')]"
    by simp
  with r p a show ?thesis by blast
qed

end
